theory Spec2Isabelle
  imports Complex_Main "HOL-Library.AList"
begin

section \<open>The token lifecycle of outlook-cli (src/outlook\_cli/auth.py)\<close>

text \<open>
  A shallow embedding of \<^verbatim>\<open>AuthManager\<close>: the token file, the device-code login, the
  credential resolver \<^verbatim>\<open>get_access_token\<close> and \<^verbatim>\<open>_refresh_token\<close>.

  Modelling decisions.
  \<^item> Timestamps and durations (\<^verbatim>\<open>time.time()\<close>, \<^verbatim>\<open>expires_in\<close>, \<^verbatim>\<open>interval\<close>) are
    \<open>real\<close> numbers of seconds; floating-point rounding is not modelled.
  \<^item> A JSON body is a record of the members the code reads. A member that the code
    subscripts (\<^verbatim>\<open>d['k']\<close>) is \<open>None\<close> when the key is absent: the read raises
    \<^verbatim>\<open>KeyError\<close>. A member read with \<^verbatim>\<open>d.get('k')\<close> is \<open>None\<close> when the key is
    absent or \<^verbatim>\<open>null\<close>. Strings are strings and numbers are numbers.
  \<^item> A Python \<^verbatim>\<open>dict\<close> is an association list in insertion order with distinct keys;
    a key is \<open>Some s\<close> for the string \<open>s\<close> and \<open>None\<close> for Python's \<^verbatim>\<open>None\<close>.
  \<^item> Everything outside the process is a field of the \<open>world\<close>: the token file, the
    clock, the answers the server will give, and a log of the requests sent. The
    clock advances by the argument of \<^verbatim>\<open>time.sleep\<close> and by the duration of each
    request, and by nothing else.
  \<^item> Every \<^verbatim>\<open>return\<close> of the source is a constructor of the result type, named after
    the state or error kind the specification gives to that return site; the message
    echoed before the return is not modelled apart from that.
  \<^item> Not modelled: a request that raises instead of answering, a body that is not a
    JSON object, a token file that cannot be read, parsed or written, and the
    \<^verbatim>\<open>chmod\<close> after a write.
\<close>

subsection \<open>Data\<close>

datatype py_error = KeyError | ValueError

text \<open>The profile returned by \<^verbatim>\<open>GET /v1.0/me\<close>; \<^verbatim>\<open>{}\<close> is \<open>empty_user_info\<close>.\<close>

record user_info =
  mail :: "string option"
  userPrincipalName :: "string option"
  other_members :: "(string \<times> string) list"

definition empty_user_info :: user_info where
  "empty_user_info = \<lparr>mail = None, userPrincipalName = None, other_members = []\<rparr>"

text \<open>One value of the token mapping (lines 111--118).\<close>

record account =
  client_id :: string
  tenant :: string
  access_token :: string
  refresh_token :: string
  expires_at :: real
  user_info :: user_info

text \<open>The JSON body of a device-code response (lines 76--81).\<close>

record device_data =
  dd_device_code :: "string option"
  dd_user_code :: "string option"
  dd_verification_uri :: "string option"
  dd_expires_in :: "real option"
  dd_interval :: "real option"

text \<open>The JSON body of a token-endpoint response, success or error.\<close>

record token_data =
  td_access_token :: "string option"
  td_refresh_token :: "string option"
  td_expires_in :: "real option"
  td_error :: "string option"

text \<open>
  A \<^verbatim>\<open>requests.Response\<close>: status, raw text (\<^verbatim>\<open>response.text\<close>), parsed body, and the time the round trip
  took (\<^verbatim>\<open>response.elapsed\<close>), by which the clock advances.
\<close>

record 'a response =
  status_code :: int
  resp_text :: string
  json :: 'a
  elapsed :: real

datatype request =
    POST_devicecode string string string
  | POST_token_device_code string string string
  | POST_token_refresh string string string
  | GET_me string

type_synonym key = "string option"
type_synonym tokens = "(key \<times> account) list"

record world =
  token_file :: "(string \<times> account) list option"
  file_writes :: nat
  clock :: real
  requests_log :: "request list"
  devicecode_response :: "device_data response"
  token_responses :: "nat \<Rightarrow> token_data response"
  me_response :: "user_info response"

subsection \<open>Python and JSON primitives\<close>

text \<open>\<^verbatim>\<open>d[k] = v\<close>: an existing key keeps its position, a new key is appended.\<close>

fun dict_set :: "'k \<Rightarrow> 'v \<Rightarrow> ('k \<times> 'v) list \<Rightarrow> ('k \<times> 'v) list" where
  "dict_set k v [] = [(k, v)]"
| "dict_set k v ((k', v') # d) =
     (if k' = k then (k, v) # d else (k', v') # dict_set k v d)"

text \<open>
  \<^verbatim>\<open>json.load\<close> of an object: members are inserted in order, so a repeated name keeps
  its first position and its last value. Every key is a string.
\<close>

definition json_load :: "(string \<times> account) list \<Rightarrow> tokens" where
  "json_load members = foldl (\<lambda>d (k, v). dict_set (Some k) v d) [] members"

text \<open>\<^verbatim>\<open>json.dump\<close> writes the key \<^verbatim>\<open>None\<close> as the member name \<^verbatim>\<open>null\<close>.\<close>

fun json_key :: "key \<Rightarrow> string" where
  "json_key None = ''null''"
| "json_key (Some s) = s"

definition json_dump :: "tokens \<Rightarrow> (string \<times> account) list" where
  "json_dump d = map (\<lambda>(k, v). (json_key k, v)) d"

text \<open>Truth value of a string or \<^verbatim>\<open>None\<close>, and \<^verbatim>\<open>a or b\<close>.\<close>

fun truthy :: "string option \<Rightarrow> bool" where
  "truthy None = False"
| "truthy (Some s) = (s \<noteq> [])"

definition py_or :: "string option \<Rightarrow> string option \<Rightarrow> string option" where
  "py_or a b = (if truthy a then a else b)"

text \<open>A round trip to the server: the clock advances and the request is logged.\<close>

definition http :: "request \<Rightarrow> 'a response \<Rightarrow> world \<Rightarrow> world" where
  "http req resp w =
     w\<lparr>clock := clock w + elapsed resp, requests_log := requests_log w @ [req]\<rparr>"

text \<open>A POST to the token endpoint takes the next answer of the server.\<close>

definition post_token :: "request \<Rightarrow> world \<Rightarrow> token_data response \<times> world" where
  "post_token req w =
     (let resp = token_responses w 0
      in (resp, (http req resp w)\<lparr>token_responses := (\<lambda>n. token_responses w (Suc n))\<rparr>))"

definition sleep :: "real \<Rightarrow> world \<Rightarrow> world" where
  "sleep secs w = w\<lparr>clock := clock w + secs\<rparr>"

definition token_url :: "string \<Rightarrow> string" where
  "token_url tnt = ''https://login.microsoftonline.com/'' @ tnt @ ''/oauth2/v2.0/token''"

definition device_code_url :: "string \<Rightarrow> string" where
  "device_code_url tnt = ''https://login.microsoftonline.com/'' @ tnt @ ''/oauth2/v2.0/devicecode''"

definition scopes :: string where
  "scopes = ''Mail.Read Mail.Send Calendars.ReadWrite Tasks.ReadWrite User.Read offline_access''"

subsection \<open>Token store (lines 41--53)\<close>

definition load_tokens :: "world \<Rightarrow> tokens" where
  "load_tokens w = (case token_file w of None \<Rightarrow> [] | Some members \<Rightarrow> json_load members)"

definition save_tokens :: "tokens \<Rightarrow> world \<Rightarrow> world" where
  "save_tokens d w = w\<lparr>token_file := Some (json_dump d), file_writes := Suc (file_writes w)\<rparr>"

subsection \<open>Profile lookup (lines 140--148)\<close>

definition get_user_info :: "string \<Rightarrow> world \<Rightarrow> user_info \<times> world" where
  "get_user_info tok w =
     (let response = me_response w;
          w1 = http (GET_me tok) response w
      in if status_code response = 200 then (json response, w1)
         else (empty_user_info, w1))"

subsection \<open>Token refresh (lines 177--202)\<close>

text \<open>
  \<open>Inr (Some t)\<close> is \<^verbatim>\<open>return token_data['access_token']\<close>, \<open>Inr None\<close> is the
  \<^verbatim>\<open>return None\<close> of the failure branch, \<open>Inl e\<close> is an exception.
\<close>

definition do_refresh_token ::
  "key \<Rightarrow> account \<Rightarrow> world \<Rightarrow> (py_error + string option) \<times> world" where
  "do_refresh_token email account_data w =
     (let (response, w1) =
            post_token (POST_token_refresh (token_url (tenant account_data))
                          (client_id account_data) (refresh_token account_data)) w
      in if status_code response = 200 then
           (let token_data = json response;
                tokens = load_tokens w1
            in case td_access_token token_data of
                 None \<Rightarrow> (Inl KeyError, w1)
               | Some new_access \<Rightarrow>
                   (case map_of tokens email of
                      None \<Rightarrow> (Inl KeyError, w1)
                    | Some stored \<Rightarrow>
                        (case td_expires_in token_data of
                           None \<Rightarrow> (Inl KeyError, w1)
                         | Some secs \<Rightarrow>
                             (let r1 = stored\<lparr>access_token := new_access\<rparr>;
                                  r2 = r1\<lparr>expires_at := clock w1 + secs\<rparr>;
                                  r3 = (case td_refresh_token token_data of
                                          Some rt \<Rightarrow> r2\<lparr>refresh_token := rt\<rparr>
                                        | None \<Rightarrow> r2)
                              in (Inr (Some new_access),
                                  save_tokens (dict_set email r3 tokens) w1)))))
         else (Inr None, w1))"

subsection \<open>Credential resolver (lines 150--175)\<close>

text \<open>
  The source returns \<^verbatim>\<open>None\<close> at three sites: line 156 (\<open>NotAuthenticated\<close>), line 164
  (\<open>AccountNotFound\<close>) and line 173 (\<open>RefreshFailed\<close>). \<open>Raised\<close> is an exception of
  \<^verbatim>\<open>_refresh_token\<close> passing through.
\<close>

datatype auth_error = NotAuthenticated | AccountNotFound | RefreshFailed | Raised py_error

text \<open>Lines 159--160: the given account, or the first key of the mapping.\<close>

definition resolved_email :: "string option \<Rightarrow> tokens \<Rightarrow> key" where
  "resolved_email email tokens =
     (case email of None \<Rightarrow> fst (hd tokens) | Some e \<Rightarrow> Some e)"

definition get_access_token :: "string option \<Rightarrow> world \<Rightarrow> (auth_error + string) \<times> world" where
  "get_access_token email w =
     (let tokens = load_tokens w
      in if tokens = [] then (Inl NotAuthenticated, w)
         else
           (let email' = resolved_email email tokens
            in case map_of tokens email' of
                 None \<Rightarrow> (Inl AccountNotFound, w)
               | Some account_data \<Rightarrow>
                   if clock w \<ge> expires_at account_data - 300 then
                     (case do_refresh_token email' account_data w of
                        (Inl e, w') \<Rightarrow> (Inl (Raised e), w')
                      | (Inr new_token, w') \<Rightarrow>
                          (case new_token of
                             Some t \<Rightarrow> if t \<noteq> [] then (Inr t, w') else (Inl RefreshFailed, w')
                           | None \<Rightarrow> (Inl RefreshFailed, w')))
                   else (Inr (access_token account_data), w)))"

subsection \<open>Device authorization flow (lines 55--138)\<close>

text \<open>
  The return sites of \<^verbatim>\<open>device_code_login\<close>: \<open>AUTHENTICATED email\<close> is line 122,
  \<open>DECLINED\<close> line 129, \<open>EXPIRED\<close> line 132, \<open>TIMED_OUT\<close> line 138; \<open>REQUEST_FAILED\<close> is
  line 74 with the text of the response and line 135 with the error payload;
  \<open>RAISED\<close> is an exception that leaves the function.
\<close>

datatype failure = ErrorText string | ErrorData token_data

datatype login_state =
    AUTHENTICATED key
  | DECLINED
  | EXPIRED
  | TIMED_OUT
  | REQUEST_FAILED failure
  | RAISED py_error

text \<open>The value \<^verbatim>\<open>device_code_login\<close> returns at each return site.\<close>

fun returns :: "login_state \<Rightarrow> bool" where
  "returns (AUTHENTICATED _) = True"
| "returns _ = False"

text \<open>Lines 101--122: the branch taken when a poll is answered with status 200.\<close>

definition store_login :: "string \<Rightarrow> string \<Rightarrow> token_data \<Rightarrow> world \<Rightarrow> login_state \<times> world" where
  "store_login cid tnt token_data w =
     (case td_access_token token_data of
        None \<Rightarrow> (RAISED KeyError, w)
      | Some tok \<Rightarrow>
          (let (info, w1) = get_user_info tok w;
               email = py_or (mail info) (userPrincipalName info);
               tokens = load_tokens w1
           in case td_refresh_token token_data of
                None \<Rightarrow> (RAISED KeyError, w1)
              | Some rt \<Rightarrow>
                  (case td_expires_in token_data of
                     None \<Rightarrow> (RAISED KeyError, w1)
                   | Some secs \<Rightarrow>
                       (AUTHENTICATED email,
                        save_tokens
                          (dict_set email
                             \<lparr>client_id = cid, tenant = tnt, access_token = tok,
                              refresh_token = rt, expires_at = clock w1 + secs,
                              user_info = info\<rparr> tokens) w1))))"

text \<open>Lines 93--99: sleep, then one poll of the token endpoint.\<close>

definition poll :: "string \<Rightarrow> string \<Rightarrow> string \<Rightarrow> real \<Rightarrow> world \<Rightarrow> token_data response \<times> world" where
  "poll cid tnt device_code interval w =
     post_token (POST_token_device_code (token_url tnt) cid device_code) (sleep interval w)"

text \<open>
  Lines 92--138. \<^verbatim>\<open>time.sleep\<close> raises \<^verbatim>\<open>ValueError\<close> on a negative argument. The loop
  need not end, so the result is an option: \<open>None\<close> is a run that never returns.
\<close>

partial_function (option) poll_loop ::
  "string \<Rightarrow> string \<Rightarrow> string \<Rightarrow> real \<Rightarrow> real \<Rightarrow> real \<Rightarrow> world \<Rightarrow> (login_state \<times> world) option" where
  "poll_loop cid tnt device_code start_time expires_in interval w =
     (if clock w - start_time < expires_in then
        if interval < 0 then Some (RAISED ValueError, w)
        else
          (let (token_response, w1) = poll cid tnt device_code interval w
           in if status_code token_response = 200 then
                Some (store_login cid tnt (json token_response) w1)
              else
                (let error_data = json token_response
                 in if td_error error_data = Some ''authorization_pending'' then
                      poll_loop cid tnt device_code start_time expires_in interval w1
                    else if td_error error_data = Some ''authorization_declined'' then
                      Some (DECLINED, w1)
                    else if td_error error_data = Some ''expired_token'' then
                      Some (EXPIRED, w1)
                    else Some (REQUEST_FAILED (ErrorData error_data), w1)))
      else Some (TIMED_OUT, w))"

definition device_code_login :: "string \<Rightarrow> string \<Rightarrow> world \<Rightarrow> (login_state \<times> world) option" where
  "device_code_login cid tnt w =
     (let response = devicecode_response w;
          w1 = http (POST_devicecode (device_code_url tnt) cid scopes) response w
      in if status_code response \<noteq> 200 then
           Some (REQUEST_FAILED (ErrorText (resp_text response)), w1)
         else
           (let device_data = json response
            in case dd_device_code device_data of
                 None \<Rightarrow> Some (RAISED KeyError, w1)
               | Some device_code \<Rightarrow>
                   (case dd_user_code device_data of
                      None \<Rightarrow> Some (RAISED KeyError, w1)
                    | Some user_code \<Rightarrow>
                        (case dd_expires_in device_data of
                           None \<Rightarrow> Some (RAISED KeyError, w1)
                         | Some expires_in \<Rightarrow>
                             (let interval =
                                    (case dd_interval device_data of None \<Rightarrow> 5 | Some i \<Rightarrow> i)
                              in poll_loop cid tnt device_code (clock w1) expires_in interval w1)))))"

subsection \<open>Notions used in the statements\<close>

text \<open>
  A mapping as \<^verbatim>\<open>_load_tokens\<close> returns it: distinct keys, all of them strings.
\<close>

definition string_keyed :: "tokens \<Rightarrow> bool" where
  "string_keyed d = (distinct (map fst d) \<and> None \<notin> set (map fst d))"

text \<open>The request \<^verbatim>\<open>_refresh_token\<close> sends for an account (lines 179--185).\<close>

definition refresh_request :: "account \<Rightarrow> request" where
  "refresh_request a =
     POST_token_refresh (token_url (tenant a)) (client_id a) (refresh_token a)"

text \<open>
  A stored record with a new access token and expiry, and a new refresh token when
  one is supplied; \<open>client_id\<close>, \<open>tenant\<close> and \<open>user_info\<close> are those of the stored record.
\<close>

definition refreshed :: "account \<Rightarrow> string \<Rightarrow> real \<Rightarrow> string option \<Rightarrow> account" where
  "refreshed stored new_access new_expiry new_refresh =
     stored\<lparr>access_token := new_access,
            expires_at := new_expiry,
            refresh_token := (case new_refresh of
                                Some rt \<Rightarrow> rt | None \<Rightarrow> refresh_token stored)\<rparr>"

text \<open>A poll answered with the error \<^verbatim>\<open>authorization_pending\<close>.\<close>

definition pending :: "token_data response \<Rightarrow> bool" where
  "pending r = (status_code r \<noteq> 200 \<and> td_error (json r) = Some ''authorization_pending'')"

text \<open>The world after \<open>n\<close> rounds of sleeping and polling (lines 93--99).\<close>

definition polled :: "string \<Rightarrow> string \<Rightarrow> string \<Rightarrow> real \<Rightarrow> nat \<Rightarrow> world \<Rightarrow> world" where
  "polled cid tnt device_code interval n w =
     ((\<lambda>w. snd (poll cid tnt device_code interval w)) ^^ n) w"

text \<open>The request of one poll (lines 95--99).\<close>

definition poll_request :: "string \<Rightarrow> string \<Rightarrow> string \<Rightarrow> request" where
  "poll_request cid tnt device_code = POST_token_device_code (token_url tnt) cid device_code"

text \<open>What \<^verbatim>\<open>_get_user_info\<close> returns in a world, and the identity of line 107.\<close>

definition fetched_profile :: "world \<Rightarrow> user_info" where
  "fetched_profile w =
     (if status_code (me_response w) = 200 then json (me_response w) else empty_user_info)"

definition identity :: "user_info \<Rightarrow> key" where
  "identity info = py_or (mail info) (userPrincipalName info)"

text \<open>The world after the device-code request (lines 67--70).\<close>

definition code_requested :: "string \<Rightarrow> string \<Rightarrow> world \<Rightarrow> world" where
  "code_requested cid tnt w =
     http (POST_devicecode (device_code_url tnt) cid scopes) (devicecode_response w) w"

subsection \<open>Example inputs\<close>

definition example_info :: user_info where
  "example_info =
     \<lparr>mail = Some ''alice@example.com'', userPrincipalName = Some ''alice@contoso.com'',
      other_members = [(''displayName'', ''Alice'')]\<rparr>"

definition alice :: account where
  "alice =
     \<lparr>client_id = ''app'', tenant = ''consumers'', access_token = ''cached'',
      refresh_token = ''r0'', expires_at = 5000, user_info = example_info\<rparr>"

definition answer :: "int \<Rightarrow> 'a \<Rightarrow> 'a response" where
  "answer code body = \<lparr>status_code = code, resp_text = [], json = body, elapsed = 1\<rparr>"

definition granted :: "string option \<Rightarrow> token_data" where
  "granted rt =
     \<lparr>td_access_token = Some ''fresh'', td_refresh_token = rt,
      td_expires_in = Some 3600, td_error = None\<rparr>"

definition oauth_error :: "string \<Rightarrow> token_data" where
  "oauth_error e =
     \<lparr>td_access_token = None, td_refresh_token = None, td_expires_in = None,
      td_error = Some e\<rparr>"

definition example_device_data :: "real \<Rightarrow> real option \<Rightarrow> device_data" where
  "example_device_data secs i =
     \<lparr>dd_device_code = Some ''dc'', dd_user_code = Some ''ABCD'',
      dd_verification_uri = None, dd_expires_in = Some secs, dd_interval = i\<rparr>"

definition example_world ::
  "(string \<times> account) list option \<Rightarrow> real \<Rightarrow> (nat \<Rightarrow> token_data response) \<Rightarrow> world" where
  "example_world file now answers =
     \<lparr>token_file = file, file_writes = 0, clock = now, requests_log = [],
      devicecode_response = answer 200 (example_device_data 900 None),
      token_responses = answers, me_response = answer 200 example_info\<rparr>"

text \<open>No token file; and a token file holding the one account \<open>alice\<close>.\<close>

definition no_store :: world where
  "no_store = example_world None 0 (\<lambda>n. answer 200 (granted None))"

definition alice_store :: "real \<Rightarrow> (nat \<Rightarrow> token_data response) \<Rightarrow> world" where
  "alice_store now answers = example_world (Some [(''alice@example.com'', alice)]) now answers"

text \<open>A server that answers \<open>k\<close> polls with \<^verbatim>\<open>authorization_pending\<close>, then grants.\<close>

definition pending_then_granted :: "nat \<Rightarrow> nat \<Rightarrow> token_data response" where
  "pending_then_granted k n =
     (if n < k then answer 400 (oauth_error ''authorization_pending'')
      else answer 200 (granted (Some ''r1'')))"

text \<open>Servers that give the same answer to every request, and worlds built on them.\<close>

definition always :: "'a \<Rightarrow> nat \<Rightarrow> 'a" where
  "always r n = r"

definition error_world :: "string \<Rightarrow> world" where
  "error_world e = example_world None 0 (always (answer 400 (oauth_error e)))"

definition overrun_world :: world where
  "overrun_world = error_world ''authorization_pending''"

definition no_profile_world :: world where
  "no_profile_world =
     (example_world None 0 (always (answer 200 (granted (Some ''r1'')))))
       \<lparr>me_response := answer 401 empty_user_info\<rparr>"

text \<open>
  The world of a login with \<^verbatim>\<open>expires_in = 10\<close> after its first round (6 seconds in,
  every poll answered \<^verbatim>\<open>authorization_pending\<close>); and a world whose server answers the
  first poll \<^verbatim>\<open>authorization_pending\<close> and grants the second.
\<close>

definition late_world :: world where
  "late_world = polled ''app'' ''consumers'' ''dc'' 5 1 overrun_world"

definition retry_world :: world where
  "retry_world = example_world None 0 (pending_then_granted 1)"

section \<open>Properties of the token store\<close>

lemma dict_set_update: "dict_set k v d = AList.update k v d"
  by (induction d) auto

lemma dict_set_fresh: "k \<notin> set (map fst d) \<Longrightarrow> dict_set k v d = d @ [(k, v)]"
  by (induction d) auto

lemma map_of_dict_set: "map_of (dict_set k v d) = (map_of d)(k \<mapsto> v)"
  by (simp add: dict_set_update update_conv')

lemma keys_dict_set:
  "map fst (dict_set k v d) = (if k \<in> set (map fst d) then map fst d else map fst d @ [k])"
  by (simp add: dict_set_update update_keys)

lemma string_keyed_dict_set:
  "string_keyed d \<Longrightarrow> string_keyed (dict_set (Some s) v d)"
  by (auto simp: string_keyed_def keys_dict_set)

lemma foldl_string_keyed:
  "string_keyed acc \<Longrightarrow> string_keyed (foldl (\<lambda>d (k, v). dict_set (Some k) v d) acc ms)"
  by (induction ms arbitrary: acc) (auto simp: string_keyed_dict_set)

lemma string_keyed_json_load: "string_keyed (json_load ms)"
  unfolding json_load_def by (rule foldl_string_keyed) (simp add: string_keyed_def)

lemma string_keyed_load_tokens: "string_keyed (load_tokens w)"
proof (cases "token_file w")
  case None
  then show ?thesis by (simp add: load_tokens_def string_keyed_def)
next
  case (Some ms)
  then show ?thesis by (simp add: load_tokens_def string_keyed_json_load)
qed

text \<open>Reading back what was written gives the mapping that was written.\<close>

lemma foldl_dump_append:
  "distinct (map fst (acc @ d)) \<Longrightarrow> None \<notin> set (map fst d) \<Longrightarrow>
   foldl (\<lambda>d (k, v). dict_set (Some k) v d) acc (json_dump d) = acc @ d"
proof (induction d arbitrary: acc)
  case Nil
  then show ?case by (simp add: json_dump_def)
next
  case (Cons p d)
  obtain k v where p: "p = (k, v)" by (cases p)
  from Cons.prems p obtain s where k: "k = Some s" by (cases k) auto
  have fresh: "Some s \<notin> set (map fst acc)" using Cons.prems p k by auto
  have "foldl (\<lambda>d (k, v). dict_set (Some k) v d) acc (json_dump (p # d))
      = foldl (\<lambda>d (k, v). dict_set (Some k) v d) (acc @ [(Some s, v)]) (json_dump d)"
    using fresh by (simp add: json_dump_def p k dict_set_fresh)
  also have "\<dots> = (acc @ [(Some s, v)]) @ d"
    using Cons.prems p k by (intro Cons.IH) auto
  finally show ?case by (simp add: p k)
qed

lemma json_load_dump: "string_keyed d \<Longrightarrow> json_load (json_dump d) = d"
  using foldl_dump_append [of "[]" d] by (simp add: json_load_def string_keyed_def)

lemma json_load_snoc: "json_load (ms @ [(s, v)]) = dict_set (Some s) v (json_load ms)"
  by (simp add: json_load_def)

text \<open>
  Writing a mapping with one more assignment, then reading it: the key \<^verbatim>\<open>None\<close> comes
  back as the string \<^verbatim>\<open>null\<close>, and replaces a record already stored under that name.
\<close>

lemma json_load_dump_dict_set:
  assumes "string_keyed d"
  shows "json_load (json_dump (dict_set k r d)) = dict_set (Some (json_key k)) r d"
proof (cases k)
  case None
  have "None \<notin> set (map fst d)" using assms by (simp add: string_keyed_def)
  then have "dict_set None r d = d @ [(None, r)]" by (rule dict_set_fresh)
  then have "json_dump (dict_set k r d) = json_dump d @ [(''null'', r)]"
    by (simp add: None json_dump_def)
  then show ?thesis
    by (simp add: None json_load_snoc json_load_dump assms)
next
  case (Some s)
  then show ?thesis
    by (simp add: json_load_dump string_keyed_dict_set assms)
qed

lemma load_tokens_save_tokens:
  "string_keyed d \<Longrightarrow>
   load_tokens (save_tokens (dict_set k r d) w) = dict_set (Some (json_key k)) r d"
  by (simp add: load_tokens_def save_tokens_def json_load_dump_dict_set)

lemma key_of_member:
  assumes "string_keyed d" and "map_of d k = Some v"
  shows "Some (json_key k) = k"
proof (cases k)
  case None
  from assms(2) have "k \<in> set (map fst d)"
    by (metis map_of_eq_None_iff option.distinct(1) set_map)
  with assms(1) None show ?thesis by (simp add: string_keyed_def)
qed simp

lemma save_tokens_fields [simp]:
  "clock (save_tokens d w) = clock w"
  "requests_log (save_tokens d w) = requests_log w"
  "file_writes (save_tokens d w) = Suc (file_writes w)"
  by (simp_all add: save_tokens_def)

section \<open>Properties of a request to the token endpoint\<close>

lemma post_token_fst [simp]: "fst (post_token req w) = token_responses w 0"
  by (simp add: post_token_def Let_def)

lemma post_token_file [simp]: "token_file (snd (post_token req w)) = token_file w"
  by (simp add: post_token_def http_def Let_def)

lemma post_token_writes [simp]: "file_writes (snd (post_token req w)) = file_writes w"
  by (simp add: post_token_def http_def Let_def)

lemma post_token_clock [simp]:
  "clock (snd (post_token req w)) = clock w + elapsed (token_responses w 0)"
  by (simp add: post_token_def http_def Let_def)

lemma post_token_log [simp]:
  "requests_log (snd (post_token req w)) = requests_log w @ [req]"
  by (simp add: post_token_def http_def Let_def)

lemma post_token_answers [simp]:
  "token_responses (snd (post_token req w)) n = token_responses w (Suc n)"
  by (simp add: post_token_def http_def Let_def)

lemma post_token_me [simp]: "me_response (snd (post_token req w)) = me_response w"
  by (simp add: post_token_def http_def Let_def)

lemma post_token_load [simp]: "load_tokens (snd (post_token req w)) = load_tokens w"
  by (simp add: load_tokens_def)

section \<open>Token refresh\<close>

lemma do_refresh_token_failure:
  assumes "status_code (token_responses w 0) \<noteq> 200"
  shows "do_refresh_token email a w = (Inr None, snd (post_token (refresh_request a) w))"
  using assms by (simp add: do_refresh_token_def refresh_request_def split_beta Let_def)

lemma do_refresh_token_success:
  assumes "status_code (token_responses w 0) = 200"
      and "td_access_token (json (token_responses w 0)) = Some new_access"
      and "td_expires_in (json (token_responses w 0)) = Some secs"
      and "map_of (load_tokens w) email = Some stored"
  shows "do_refresh_token email a w =
           (Inr (Some new_access),
            save_tokens
              (dict_set email
                 (refreshed stored new_access
                    (clock w + elapsed (token_responses w 0) + secs)
                    (td_refresh_token (json (token_responses w 0))))
                 (load_tokens w))
              (snd (post_token (refresh_request a) w)))"
  using assms
  by (simp add: do_refresh_token_def refresh_request_def refreshed_def split_beta Let_def
           split: option.splits)

lemma do_refresh_token_log:
  "requests_log (snd (do_refresh_token email a w)) = requests_log w @ [refresh_request a]"
  by (simp add: do_refresh_token_def refresh_request_def split_beta Let_def
           split: option.splits)

section \<open>Credential resolver\<close>

lemma get_access_token_stale:
  assumes "map_of (load_tokens w) (resolved_email email (load_tokens w)) = Some a"
      and "clock w \<ge> expires_at a - 300"
  shows "get_access_token email w =
           (case do_refresh_token (resolved_email email (load_tokens w)) a w of
              (Inl e, w') \<Rightarrow> (Inl (Raised e), w')
            | (Inr new_token, w') \<Rightarrow>
                (case new_token of
                   Some t \<Rightarrow> if t \<noteq> [] then (Inr t, w') else (Inl RefreshFailed, w')
                 | None \<Rightarrow> (Inl RefreshFailed, w')))"
proof -
  from assms(1) have "load_tokens w \<noteq> []" by auto
  with assms show ?thesis by (simp add: get_access_token_def Let_def)
qed

section \<open>Device authorization flow\<close>

lemma poll_fst [simp]: "fst (poll cid tnt dc i w) = token_responses w 0"
  by (simp add: poll_def sleep_def)

lemma poll_file [simp]: "token_file (snd (poll cid tnt dc i w)) = token_file w"
  by (simp add: poll_def sleep_def)

lemma poll_writes [simp]: "file_writes (snd (poll cid tnt dc i w)) = file_writes w"
  by (simp add: poll_def sleep_def)

lemma poll_clock [simp]:
  "clock (snd (poll cid tnt dc i w)) = clock w + i + elapsed (token_responses w 0)"
  by (simp add: poll_def sleep_def)

lemma poll_log [simp]:
  "requests_log (snd (poll cid tnt dc i w)) = requests_log w @ [poll_request cid tnt dc]"
  by (simp add: poll_def sleep_def poll_request_def)

lemma poll_answers [simp]:
  "token_responses (snd (poll cid tnt dc i w)) n = token_responses w (Suc n)"
  by (simp add: poll_def sleep_def)

lemma poll_me [simp]: "me_response (snd (poll cid tnt dc i w)) = me_response w"
  by (simp add: poll_def sleep_def)

lemma poll_load [simp]: "load_tokens (snd (poll cid tnt dc i w)) = load_tokens w"
  by (simp add: load_tokens_def)

lemma poll_loop_timed_out:
  "\<not> clock w - start_time < expires_in \<Longrightarrow>
   poll_loop cid tnt dc start_time expires_in i w = Some (TIMED_OUT, w)"
  by (subst poll_loop.simps) simp

lemma poll_loop_negative_interval:
  "clock w - start_time < expires_in \<Longrightarrow> i < 0 \<Longrightarrow>
   poll_loop cid tnt dc start_time expires_in i w = Some (RAISED ValueError, w)"
  by (subst poll_loop.simps) simp

lemma poll_loop_granted:
  "clock w - start_time < expires_in \<Longrightarrow> 0 \<le> i \<Longrightarrow>
   status_code (token_responses w 0) = 200 \<Longrightarrow>
   poll_loop cid tnt dc start_time expires_in i w =
     Some (store_login cid tnt (json (token_responses w 0)) (snd (poll cid tnt dc i w)))"
  by (subst poll_loop.simps) (simp add: split_beta)

lemma poll_loop_error:
  "clock w - start_time < expires_in \<Longrightarrow> 0 \<le> i \<Longrightarrow>
   status_code (token_responses w 0) \<noteq> 200 \<Longrightarrow>
   poll_loop cid tnt dc start_time expires_in i w =
     (if td_error (json (token_responses w 0)) = Some ''authorization_pending'' then
        poll_loop cid tnt dc start_time expires_in i (snd (poll cid tnt dc i w))
      else if td_error (json (token_responses w 0)) = Some ''authorization_declined'' then
        Some (DECLINED, snd (poll cid tnt dc i w))
      else if td_error (json (token_responses w 0)) = Some ''expired_token'' then
        Some (EXPIRED, snd (poll cid tnt dc i w))
      else Some (REQUEST_FAILED (ErrorData (json (token_responses w 0))),
                 snd (poll cid tnt dc i w)))"
  by (subst poll_loop.simps) (simp add: split_beta Let_def)

lemma poll_loop_pending:
  "clock w - start_time < expires_in \<Longrightarrow> 0 \<le> i \<Longrightarrow> pending (token_responses w 0) \<Longrightarrow>
   poll_loop cid tnt dc start_time expires_in i w =
     poll_loop cid tnt dc start_time expires_in i (snd (poll cid tnt dc i w))"
  by (simp add: poll_loop_error pending_def)

lemma polled_0 [simp]: "polled cid tnt dc i 0 w = w"
  by (simp add: polled_def)

lemma polled_Suc:
  "polled cid tnt dc i (Suc n) w = snd (poll cid tnt dc i (polled cid tnt dc i n w))"
  by (simp add: polled_def)

lemma polled_answers [simp]:
  "token_responses (polled cid tnt dc i n w) k = token_responses w (n + k)"
  by (induction n arbitrary: k) (simp_all add: polled_Suc)

lemma polled_file [simp]: "token_file (polled cid tnt dc i n w) = token_file w"
  by (induction n) (simp_all add: polled_Suc)

lemma polled_writes [simp]: "file_writes (polled cid tnt dc i n w) = file_writes w"
  by (induction n) (simp_all add: polled_Suc)

lemma polled_me [simp]: "me_response (polled cid tnt dc i n w) = me_response w"
  by (induction n) (simp_all add: polled_Suc)

lemma polled_load [simp]: "load_tokens (polled cid tnt dc i n w) = load_tokens w"
  by (simp add: load_tokens_def)

lemma polled_clock:
  "clock (polled cid tnt dc i n w)
     = clock w + real n * i + (\<Sum>j<n. elapsed (token_responses w j))"
  by (induction n) (simp_all add: polled_Suc algebra_simps)

lemma polled_log:
  "requests_log (polled cid tnt dc i n w)
     = requests_log w @ replicate n (poll_request cid tnt dc)"
  by (induction n) (simp_all add: polled_Suc replicate_append_same)

lemma poll_loop_pending_polls:
  assumes "0 \<le> i"
      and "\<forall>j<n. clock (polled cid tnt dc i j w) - start_time < expires_in \<and>
                  pending (token_responses w j)"
  shows "poll_loop cid tnt dc start_time expires_in i w =
           poll_loop cid tnt dc start_time expires_in i (polled cid tnt dc i n w)"
  using assms(2)
proof (induction n)
  case 0
  show ?case by simp
next
  case (Suc n)
  then have "poll_loop cid tnt dc start_time expires_in i w =
               poll_loop cid tnt dc start_time expires_in i (polled cid tnt dc i n w)"
    by simp
  also have "\<dots> = poll_loop cid tnt dc start_time expires_in i (polled cid tnt dc i (Suc n) w)"
    unfolding polled_Suc using Suc.prems assms(1)
    by (intro poll_loop_pending) simp_all
  finally show ?case .
qed

lemma http_fields [simp]:
  "token_file (http req resp w) = token_file w"
  "file_writes (http req resp w) = file_writes w"
  "clock (http req resp w) = clock w + elapsed resp"
  "requests_log (http req resp w) = requests_log w @ [req]"
  "token_responses (http req resp w) = token_responses w"
  "me_response (http req resp w) = me_response w"
  "devicecode_response (http req resp w) = devicecode_response w"
  by (simp_all add: http_def)

lemma http_load [simp]: "load_tokens (http req resp w) = load_tokens w"
  by (simp add: load_tokens_def)

lemma get_user_info_eq:
  "get_user_info tok w = (fetched_profile w, http (GET_me tok) (me_response w) w)"
  by (simp add: get_user_info_def fetched_profile_def Let_def)

lemma store_login_success:
  assumes "td_access_token td = Some tok"
      and "td_refresh_token td = Some rt"
      and "td_expires_in td = Some secs"
  shows "store_login cid tnt td w =
           (AUTHENTICATED (identity (fetched_profile w)),
            save_tokens
              (dict_set (identity (fetched_profile w))
                 \<lparr>client_id = cid, tenant = tnt, access_token = tok, refresh_token = rt,
                  expires_at = clock w + elapsed (me_response w) + secs,
                  user_info = fetched_profile w\<rparr>
                 (load_tokens w))
              (http (GET_me tok) (me_response w) w))"
  using assms by (simp add: store_login_def get_user_info_eq identity_def Let_def)

lemma poll_loop_success:
  assumes "0 \<le> i"
      and "\<forall>j<n. clock (polled cid tnt dc i j w) - start_time < expires_in \<and>
                  pending (token_responses w j)"
      and "clock (polled cid tnt dc i n w) - start_time < expires_in"
      and "status_code (token_responses w n) = 200"
  shows "poll_loop cid tnt dc start_time expires_in i w =
           Some (store_login cid tnt (json (token_responses w n))
                   (polled cid tnt dc i (Suc n) w))"
proof -
  have "poll_loop cid tnt dc start_time expires_in i w =
          poll_loop cid tnt dc start_time expires_in i (polled cid tnt dc i n w)"
    using assms(1,2) by (rule poll_loop_pending_polls)
  also have "\<dots> = Some (store_login cid tnt (json (token_responses w n))
                          (polled cid tnt dc i (Suc n) w))"
    using assms(1,3,4) by (simp add: poll_loop_granted polled_Suc)
  finally show ?thesis .
qed

lemma device_code_login_polling:
  assumes "status_code (devicecode_response w) = 200"
      and "dd_device_code (json (devicecode_response w)) = Some dc"
      and "dd_user_code (json (devicecode_response w)) = Some uc"
      and "dd_expires_in (json (devicecode_response w)) = Some expires_in"
  shows "device_code_login cid tnt w =
           poll_loop cid tnt dc (clock (code_requested cid tnt w)) expires_in
             (case dd_interval (json (devicecode_response w)) of None \<Rightarrow> 5 | Some i \<Rightarrow> i)
             (code_requested cid tnt w)"
  using assms by (simp add: device_code_login_def code_requested_def Let_def)

lemma elapsed_pending_then_granted [simp]: "elapsed (pending_then_granted k n) = 1"
  by (simp add: pending_then_granted_def answer_def)

lemma example_world_fields [simp]:
  "token_file (example_world f now answers) = f"
  "file_writes (example_world f now answers) = 0"
  "clock (example_world f now answers) = now"
  "requests_log (example_world f now answers) = []"
  "token_responses (example_world f now answers) = answers"
  "me_response (example_world f now answers) = answer 200 example_info"
  "devicecode_response (example_world f now answers) = answer 200 (example_device_data 900 None)"
  by (simp_all add: example_world_def)


lemma code_requested_fields [simp]:
  "token_file (code_requested cid tnt w) = token_file w"
  "file_writes (code_requested cid tnt w) = file_writes w"
  "clock (code_requested cid tnt w) = clock w + elapsed (devicecode_response w)"
  "token_responses (code_requested cid tnt w) = token_responses w"
  "me_response (code_requested cid tnt w) = me_response w"
  "load_tokens (code_requested cid tnt w) = load_tokens w"
  "fetched_profile (code_requested cid tnt w) = fetched_profile w"
  by (simp_all add: code_requested_def fetched_profile_def)

lemma alice_store_fields:
  "token_file (alice_store now answers) = Some [(''alice@example.com'', alice)]"
  "file_writes (alice_store now answers) = 0"
  "clock (alice_store now answers) = now"
  "requests_log (alice_store now answers) = []"
  "token_responses (alice_store now answers) = answers"
  "me_response (alice_store now answers) = answer 200 example_info"
  by (simp_all add: alice_store_def)

text \<open>The polling loop only ever adds to the log of requests.\<close>

lemma store_login_log:
  "\<exists>rest. requests_log (snd (store_login cid tnt td w)) = requests_log w @ rest"
  by (simp add: store_login_def get_user_info_eq Let_def split: option.splits)

lemma poll_loop_log:
  assumes "poll_loop cid tnt dc start_time expires_in i w = Some y"
  shows "\<exists>rest. requests_log (snd y) = requests_log w @ rest"
proof (rule poll_loop.raw_induct
         [where P = "\<lambda>cid tnt dc start_time expires_in i w y.
                       \<exists>rest. requests_log (snd y) = requests_log w @ rest", OF _ assms])
  fix loop cid tnt dc start_time expires_in i w y
  assume IH: "\<And>cid tnt dc start_time expires_in i w y.
                loop cid tnt dc start_time expires_in i w = Some y \<Longrightarrow>
                \<exists>rest. requests_log (snd y) = requests_log w @ rest"
    and body: "(if clock w - start_time < expires_in then
        if i < 0 then Some (RAISED ValueError, w)
        else
          (let (token_response, w1) = poll cid tnt dc i w
           in if status_code token_response = 200 then
                Some (store_login cid tnt (json token_response) w1)
              else
                (let error_data = json token_response
                 in if td_error error_data = Some ''authorization_pending'' then
                      loop cid tnt dc start_time expires_in i w1
                    else if td_error error_data = Some ''authorization_declined'' then
                      Some (DECLINED, w1)
                    else if td_error error_data = Some ''expired_token'' then
                      Some (EXPIRED, w1)
                    else Some (REQUEST_FAILED (ErrorData error_data), w1)))
      else Some (TIMED_OUT, w)) = Some y"
  let ?w1 = "snd (poll cid tnt dc i w)"
  let ?r = "token_responses w 0"
  show "\<exists>rest. requests_log (snd y) = requests_log w @ rest"
  proof (cases "clock w - start_time < expires_in \<and> \<not> i < 0")
    case False
    with body have "snd y = w" by (auto split: if_splits)
    then show ?thesis by simp
  next
    case True
    show ?thesis
    proof (cases "status_code ?r = 200")
      case ok: True
      with True body have "y = store_login cid tnt (json ?r) ?w1"
        by (simp add: split_beta)
      with store_login_log [of cid tnt "json ?r" ?w1] show ?thesis by auto
    next
      case err: False
      show ?thesis
      proof (cases "td_error (json ?r) = Some ''authorization_pending''")
        case True
        with \<open>clock w - start_time < expires_in \<and> \<not> i < 0\<close> err body
        have "loop cid tnt dc start_time expires_in i ?w1 = Some y"
          by (simp add: split_beta Let_def)
        from IH [OF this] show ?thesis by auto
      next
        case False
        with \<open>clock w - start_time < expires_in \<and> \<not> i < 0\<close> err body
        have "snd y = ?w1"
          by (auto simp: split_beta Let_def split: if_splits)
        then show ?thesis by simp
      qed
    qed
  qed
qed

lemma late_world_facts:
  "clock late_world = 6"
  "token_responses late_world n = answer 400 (oauth_error ''authorization_pending'')"
  "requests_log late_world = [poll_request ''app'' ''consumers'' ''dc'']"
  "clock (snd (poll ''app'' ''consumers'' ''dc'' 5 late_world)) = 12"
  by (simp_all add: late_world_def overrun_world_def error_world_def always_def polled_clock
        polled_log answer_def)

section \<open>Credential resolver: claims\<close>

text \<open>
  C8. Resolving against an empty store fails with \<open>NotAuthenticated\<close>; resolving a given
  email that has no record in a non-empty store fails with \<open>AccountNotFound\<close>. In both
  cases no token is returned and the world, hence the store, is unchanged.
\<close>

theorem resolve_without_record:
  "(load_tokens w = [] \<longrightarrow> get_access_token email w = (Inl NotAuthenticated, w)) \<and>
   (load_tokens w \<noteq> [] \<and> map_of (load_tokens w) (Some e) = None \<longrightarrow>
      get_access_token (Some e) w = (Inl AccountNotFound, w))"
  by (simp add: get_access_token_def resolved_email_def Let_def)

theorem resolve_without_record_witness:
  "load_tokens no_store = [] \<and>
   get_access_token None no_store = (Inl NotAuthenticated, no_store) \<and>
   load_tokens (alice_store 0 (\<lambda>n. answer 200 (granted None))) \<noteq> [] \<and>
   map_of (load_tokens (alice_store 0 (\<lambda>n. answer 200 (granted None))))
     (Some ''bob@example.com'') = None \<and>
   get_access_token (Some ''bob@example.com'') (alice_store 0 (\<lambda>n. answer 200 (granted None)))
     = (Inl AccountNotFound, alice_store 0 (\<lambda>n. answer 200 (granted None)))"
  using resolve_without_record [of no_store None "''bob@example.com''"]
        resolve_without_record
          [of "alice_store 0 (\<lambda>n. answer 200 (granted None))" None "''bob@example.com''"]
  by (simp add: load_tokens_def json_load_def example_world_def no_store_def alice_store_def)

text \<open>
  C2. When the record of the resolved account expires more than 300 seconds after
  now, the resolver returns its cached access token and the world is unchanged: no
  request is sent and the token file is not written.
\<close>

theorem resolve_fresh_record:
  assumes "map_of (load_tokens w) (resolved_email email (load_tokens w)) = Some a"
      and "clock w < expires_at a - 300"
  shows "get_access_token email w = (Inr (access_token a), w)"
proof -
  from assms(1) have "load_tokens w \<noteq> []" by auto
  with assms show ?thesis by (simp add: get_access_token_def Let_def)
qed

theorem resolve_fresh_record_witness:
  "map_of (load_tokens (alice_store 4699 (\<lambda>n. answer 200 (granted None))))
     (resolved_email None (load_tokens (alice_store 4699 (\<lambda>n. answer 200 (granted None)))))
     = Some alice \<and>
   clock (alice_store 4699 (\<lambda>n. answer 200 (granted None))) < expires_at alice - 300 \<and>
   get_access_token None (alice_store 4699 (\<lambda>n. answer 200 (granted None)))
     = (Inr ''cached'', alice_store 4699 (\<lambda>n. answer 200 (granted None)))"
proof -
  let ?w = "alice_store 4699 (\<lambda>n. answer 200 (granted None))"
  have h1: "map_of (load_tokens ?w) (resolved_email None (load_tokens ?w)) = Some alice"
    by (simp add: load_tokens_def json_load_def example_world_def alice_store_def
          resolved_email_def)
  have h2: "clock ?w < expires_at alice - 300"
    by (simp add: example_world_def alice_store_def alice_def)
  from resolve_fresh_record [OF h1 h2] h1 h2 show ?thesis by (simp add: alice_def)
qed


text \<open>
  C4. When the token endpoint answers a refresh with a status other than 200,
  \<^verbatim>\<open>_refresh_token\<close> returns \<^verbatim>\<open>None\<close> (the failure signal), the token file is the
  same as before (so no field of any record has changed), and it has not been written.
\<close>

theorem refresh_failure_keeps_store:
  assumes "status_code (token_responses w 0) \<noteq> 200"
  shows "fst (do_refresh_token email a w) = Inr None \<and>
         token_file (snd (do_refresh_token email a w)) = token_file w \<and>
         file_writes (snd (do_refresh_token email a w)) = file_writes w"
  using assms by (simp add: do_refresh_token_failure)

theorem refresh_failure_keeps_store_witness:
  "status_code (token_responses (alice_store 4800 (\<lambda>n. answer 400 (oauth_error ''invalid_grant''))) 0) \<noteq> 200 \<and>
   fst (do_refresh_token (Some ''alice@example.com'') alice
          (alice_store 4800 (\<lambda>n. answer 400 (oauth_error ''invalid_grant'')))) = Inr None \<and>
   token_file (snd (do_refresh_token (Some ''alice@example.com'') alice
          (alice_store 4800 (\<lambda>n. answer 400 (oauth_error ''invalid_grant'')))))
     = Some [(''alice@example.com'', alice)] \<and>
   file_writes (snd (do_refresh_token (Some ''alice@example.com'') alice
          (alice_store 4800 (\<lambda>n. answer 400 (oauth_error ''invalid_grant''))))) = 0"
proof -
  let ?w = "alice_store 4800 (\<lambda>n. answer 400 (oauth_error ''invalid_grant''))"
  have h: "status_code (token_responses ?w 0) \<noteq> 200"
    by (simp add: alice_store_def example_world_def answer_def)
  from refresh_failure_keeps_store [OF h, of "Some ''alice@example.com''" alice] h
  show ?thesis by (simp add: alice_store_def example_world_def)
qed

text \<open>
  C3. When the token endpoint answers a refresh with status 200 (carrying an access
  token and \<^verbatim>\<open>expires_in\<close>), the store afterwards is the store before with the record
  of that account replaced: its access token is the new one, its expiry is the time of
  the update plus \<^verbatim>\<open>expires_in\<close>, its refresh token is the one of the response when the
  response has one and the stored one otherwise; \<open>client_id\<close>, \<open>tenant\<close> and \<open>user_info\<close>
  are those of the stored record. Every other key maps to what it mapped to before,
  and the order of the keys is the same.
\<close>

theorem refresh_success_updates_record:
  assumes "map_of (load_tokens w) email = Some stored"
      and "status_code (token_responses w 0) = 200"
      and "td_access_token (json (token_responses w 0)) = Some new_access"
      and "td_expires_in (json (token_responses w 0)) = Some secs"
      and "do_refresh_token email a w = (res, w')"
  shows "res = Inr (Some new_access) \<and>
         map_of (load_tokens w') =
           (map_of (load_tokens w))
             (email \<mapsto> stored\<lparr>access_token := new_access,
                                expires_at := clock w' + secs,
                                refresh_token :=
                                  (case td_refresh_token (json (token_responses w 0)) of
                                     Some rt \<Rightarrow> rt | None \<Rightarrow> refresh_token stored)\<rparr>) \<and>
         map fst (load_tokens w') = map fst (load_tokens w)"
proof -
  let ?r = "refreshed stored new_access (clock w + elapsed (token_responses w 0) + secs)
              (td_refresh_token (json (token_responses w 0)))"
  let ?w1 = "snd (post_token (refresh_request a) w)"
  have sk: "string_keyed (load_tokens w)" by (rule string_keyed_load_tokens)
  have key: "Some (json_key email) = email" using sk assms(1) by (rule key_of_member)
  have mem: "email \<in> set (map fst (load_tokens w))"
    using assms(1) by (metis map_of_eq_None_iff option.distinct(1) set_map)
  from do_refresh_token_success [OF assms(2,3,4,1), of a] assms(5)
  have res: "res = Inr (Some new_access)"
    and w': "w' = save_tokens (dict_set email ?r (load_tokens w)) ?w1" by simp_all
  have load: "load_tokens w' = dict_set email ?r (load_tokens w)"
    unfolding w' using load_tokens_save_tokens [OF sk, of email ?r ?w1] key by simp
  have clk: "clock w' = clock w + elapsed (token_responses w 0)"
    unfolding w' by simp
  show ?thesis
    using res mem by (simp add: load map_of_dict_set keys_dict_set clk refreshed_def)
qed


theorem refresh_success_updates_record_witness:
  "map_of (load_tokens (alice_store 4800 (\<lambda>n. answer 200 (granted (Some ''r1'')))))
     (Some ''alice@example.com'') = Some alice \<and>
   status_code (token_responses (alice_store 4800 (\<lambda>n. answer 200 (granted (Some ''r1'')))) 0) = 200 \<and>
   td_access_token (json (token_responses (alice_store 4800 (\<lambda>n. answer 200 (granted (Some ''r1'')))) 0))
     = Some ''fresh'' \<and>
   td_expires_in (json (token_responses (alice_store 4800 (\<lambda>n. answer 200 (granted (Some ''r1'')))) 0))
     = Some 3600 \<and>
   fst (do_refresh_token (Some ''alice@example.com'') alice
          (alice_store 4800 (\<lambda>n. answer 200 (granted (Some ''r1''))))) = Inr (Some ''fresh'') \<and>
   map_of (load_tokens (snd (do_refresh_token (Some ''alice@example.com'') alice
          (alice_store 4800 (\<lambda>n. answer 200 (granted (Some ''r1'')))))))
     = [Some ''alice@example.com'' \<mapsto>
          alice\<lparr>access_token := ''fresh'', expires_at := 8401, refresh_token := ''r1''\<rparr>]"
proof -
  let ?w = "alice_store 4800 (\<lambda>n. answer 200 (granted (Some ''r1'')))"
  let ?run = "do_refresh_token (Some ''alice@example.com'') alice ?w"
  have h1: "map_of (load_tokens ?w) (Some ''alice@example.com'') = Some alice"
    by (simp add: load_tokens_def json_load_def alice_store_def example_world_def)
  have h2: "status_code (token_responses ?w 0) = 200"
    by (simp add: alice_store_def example_world_def answer_def)
  have h3: "td_access_token (json (token_responses ?w 0)) = Some ''fresh''"
    by (simp add: alice_store_def example_world_def answer_def granted_def)
  have h4: "td_expires_in (json (token_responses ?w 0)) = Some 3600"
    by (simp add: alice_store_def example_world_def answer_def granted_def)
  have h5: "?run = (fst ?run, snd ?run)" by simp
  have clk: "clock (snd ?run) = 4801"
    by (simp add: do_refresh_token_success [OF h2 h3 h4 h1])
       (simp add: alice_store_def example_world_def answer_def)
  have rt: "td_refresh_token (json (token_responses ?w 0)) = Some ''r1''"
    by (simp add: alice_store_def example_world_def answer_def granted_def)
  have ld: "map_of (load_tokens ?w) = [Some ''alice@example.com'' \<mapsto> alice]"
    by (simp add: load_tokens_def json_load_def alice_store_def example_world_def)
  from refresh_success_updates_record [OF h1 h2 h3 h4 h5]
  have "fst ?run = Inr (Some ''fresh'')"
    and "map_of (load_tokens (snd ?run)) =
           [Some ''alice@example.com'' \<mapsto>
              alice\<lparr>access_token := ''fresh'', expires_at := 8401, refresh_token := ''r1''\<rparr>]"
    by (simp_all add: clk rt ld)
  with h1 h2 h3 h4 show ?thesis by simp
qed

text \<open>
  C1. When the record of the resolved account satisfies \<open>now \<ge> expires_at - 300\<close>, the
  resolver runs \<^verbatim>\<open>_refresh_token\<close> once: the world after the call is the world after one
  refresh, and exactly one request, the refresh request for that record, has been
  added to the log. If the refresh is answered with a status other than 200, the
  resolver yields \<open>RefreshFailed\<close>, so no token (in particular not the cached one) is
  returned, and the token file is untouched.
\<close>

theorem resolve_stale_record:
  assumes "map_of (load_tokens w) (resolved_email email (load_tokens w)) = Some a"
      and "clock w \<ge> expires_at a - 300"
  shows "snd (get_access_token email w)
           = snd (do_refresh_token (resolved_email email (load_tokens w)) a w) \<and>
         requests_log (snd (get_access_token email w)) = requests_log w @ [refresh_request a] \<and>
         (status_code (token_responses w 0) \<noteq> 200 \<longrightarrow>
            fst (get_access_token email w) = Inl RefreshFailed \<and>
            token_file (snd (get_access_token email w)) = token_file w \<and>
            file_writes (snd (get_access_token email w)) = file_writes w)"
proof -
  let ?e = "resolved_email email (load_tokens w)"
  note run = get_access_token_stale [OF assms]
  have world: "snd (get_access_token email w) = snd (do_refresh_token ?e a w)"
    unfolding run by (simp split: prod.splits sum.splits option.splits)
  have failed: "fst (get_access_token email w) = Inl RefreshFailed"
    if "status_code (token_responses w 0) \<noteq> 200"
    unfolding run by (simp add: do_refresh_token_failure [OF that])
  show ?thesis
    using world failed by (simp add: do_refresh_token_log) (simp add: do_refresh_token_failure)
qed

theorem resolve_stale_record_witness:
  "map_of (load_tokens (alice_store 4700 (\<lambda>n. answer 400 (oauth_error ''invalid_grant''))))
     (resolved_email None (load_tokens (alice_store 4700 (\<lambda>n. answer 400 (oauth_error ''invalid_grant'')))))
     = Some alice \<and>
   clock (alice_store 4700 (\<lambda>n. answer 400 (oauth_error ''invalid_grant''))) \<ge> expires_at alice - 300 \<and>
   status_code (token_responses (alice_store 4700 (\<lambda>n. answer 400 (oauth_error ''invalid_grant''))) 0) \<noteq> 200 \<and>
   requests_log (snd (get_access_token None (alice_store 4700 (\<lambda>n. answer 400 (oauth_error ''invalid_grant'')))))
     = [POST_token_refresh (token_url ''consumers'') ''app'' ''r0''] \<and>
   fst (get_access_token None (alice_store 4700 (\<lambda>n. answer 400 (oauth_error ''invalid_grant''))))
     = Inl RefreshFailed \<and>
   token_file (snd (get_access_token None (alice_store 4700 (\<lambda>n. answer 400 (oauth_error ''invalid_grant'')))))
     = Some [(''alice@example.com'', alice)]"
proof -
  let ?w = "alice_store 4700 (\<lambda>n. answer 400 (oauth_error ''invalid_grant''))"
  have h1: "map_of (load_tokens ?w) (resolved_email None (load_tokens ?w)) = Some alice"
    by (simp add: load_tokens_def json_load_def example_world_def alice_store_def
          resolved_email_def)
  have h2: "clock ?w \<ge> expires_at alice - 300"
    by (simp add: example_world_def alice_store_def alice_def)
  have h3: "status_code (token_responses ?w 0) \<noteq> 200"
    by (simp add: alice_store_def example_world_def answer_def)
  have log: "requests_log ?w = []" and tf: "token_file ?w = Some [(''alice@example.com'', alice)]"
    by (simp_all add: alice_store_def example_world_def)
  have req: "refresh_request alice = POST_token_refresh (token_url ''consumers'') ''app'' ''r0''"
    by (simp add: refresh_request_def alice_def)
  from resolve_stale_record [OF h1 h2, THEN conjunct2] h3
  have "requests_log (snd (get_access_token None ?w)) = requests_log ?w @ [refresh_request alice]"
    and "fst (get_access_token None ?w) = Inl RefreshFailed"
    and "token_file (snd (get_access_token None ?w)) = token_file ?w"
    by simp_all
  with h1 h2 h3 show ?thesis
    by (simp add: log tf req)
qed

text \<open>
  C10. Whenever the resolver returns an access token, by the cached path or after a
  refresh, the store at the moment of return holds a record for the resolved account
  whose access token is the returned one.
\<close>

theorem resolved_token_is_stored:
  assumes "get_access_token email w = (Inr tok, w')"
  shows "\<exists>a. map_of (load_tokens w') (resolved_email email (load_tokens w)) = Some a \<and>
             access_token a = tok"
proof -
  let ?tokens = "load_tokens w"
  let ?e = "resolved_email email ?tokens"
  from assms have ne: "?tokens \<noteq> []"
    by (auto simp: get_access_token_def Let_def)
  from assms ne obtain acc where acc: "map_of ?tokens ?e = Some acc"
    by (cases "map_of ?tokens ?e") (auto simp: get_access_token_def Let_def)
  show ?thesis
  proof (cases "clock w \<ge> expires_at acc - 300")
    case False
    with assms ne acc have "tok = access_token acc" "w' = w"
      by (auto simp: get_access_token_def Let_def)
    with acc show ?thesis by simp
  next
    case True
    let ?resp = "token_responses w 0"
    from assms ne acc True have ref: "do_refresh_token ?e acc w = (Inr (Some tok), w')"
      by (auto simp: get_access_token_def Let_def
               split: prod.splits sum.splits option.splits if_splits)
    then have ok: "status_code ?resp = 200"
      by (auto simp: do_refresh_token_def split_beta Let_def split: if_splits)
    from ref ok obtain t where t: "td_access_token (json ?resp) = Some t"
      by (cases "td_access_token (json ?resp)")
         (auto simp: do_refresh_token_def split_beta Let_def)
    from ref ok t acc obtain secs where secs: "td_expires_in (json ?resp) = Some secs"
      by (cases "td_expires_in (json ?resp)")
         (auto simp: do_refresh_token_def split_beta Let_def)
    let ?r = "refreshed acc t (clock w + elapsed ?resp + secs) (td_refresh_token (json ?resp))"
    from do_refresh_token_success [OF ok t secs acc, of acc] ref
    have tok: "tok = t"
      and w': "w' = save_tokens (dict_set ?e ?r ?tokens) (snd (post_token (refresh_request acc) w))"
      by simp_all
    have sk: "string_keyed ?tokens" by (rule string_keyed_load_tokens)
    have key: "Some (json_key ?e) = ?e" using sk acc by (rule key_of_member)
    have "load_tokens w' = dict_set ?e ?r ?tokens"
      unfolding w' using load_tokens_save_tokens [OF sk, of ?e ?r] key by simp
    then have "map_of (load_tokens w') ?e = Some ?r"
      by (simp add: map_of_dict_set)
    moreover have "access_token ?r = tok"
      by (simp add: refreshed_def tok)
    ultimately show ?thesis by blast
  qed
qed


theorem resolved_token_is_stored_witness:
  "get_access_token None (alice_store 4800 (\<lambda>n. answer 200 (granted (Some ''r1''))))
     = (Inr ''fresh'',
        snd (get_access_token None (alice_store 4800 (\<lambda>n. answer 200 (granted (Some ''r1'')))))) \<and>
   (\<exists>a. map_of (load_tokens
                 (snd (get_access_token None (alice_store 4800 (\<lambda>n. answer 200 (granted (Some ''r1'')))))))
             (resolved_email None (load_tokens (alice_store 4800 (\<lambda>n. answer 200 (granted (Some ''r1''))))))
           = Some a \<and> access_token a = ''fresh'')"
proof -
  let ?w = "alice_store 4800 (\<lambda>n. answer 200 (granted (Some ''r1'')))"
  have h1: "map_of (load_tokens ?w) (resolved_email None (load_tokens ?w)) = Some alice"
    by (simp add: load_tokens_def json_load_def example_world_def alice_store_def
          resolved_email_def)
  have h2: "clock ?w \<ge> expires_at alice - 300"
    by (simp add: example_world_def alice_store_def alice_def)
  have ok: "status_code (token_responses ?w 0) = 200"
    by (simp add: alice_store_def example_world_def answer_def)
  have t: "td_access_token (json (token_responses ?w 0)) = Some ''fresh''"
    by (simp add: alice_store_def example_world_def answer_def granted_def)
  have secs: "td_expires_in (json (token_responses ?w 0)) = Some 3600"
    by (simp add: alice_store_def example_world_def answer_def granted_def)
  have "fst (get_access_token None ?w) = Inr ''fresh''"
    by (simp add: get_access_token_stale [OF h1 h2]
          do_refresh_token_success [OF ok t secs h1])
  then have run: "get_access_token None ?w = (Inr ''fresh'', snd (get_access_token None ?w))"
    by (metis prod.collapse)
  from resolved_token_is_stored [OF run] run show ?thesis by simp
qed

section \<open>Device authorization flow: claims\<close>

text \<open>
  C5. A flow in which a poll is answered with status 200 (the polls before it were
  answered \<^verbatim>\<open>authorization_pending\<close>, each within the time allowed, and the answer
  carries access token, refresh token and \<^verbatim>\<open>expires_in\<close>) ends \<open>AUTHENTICATED\<close>. After
  the polls it sends one profile request with the fresh access token. The identity is
  the profile's mail address, or the principal name when the mail address is absent
  (or empty). The store afterwards is the store before with the record for that
  identity set to the new record, whose expiry is the time of the write plus
  \<^verbatim>\<open>expires_in\<close>: a record already under that key is replaced as a whole and every
  other key keeps its record.
\<close>

theorem login_on_granted_poll:
  assumes "0 \<le> i"
      and "\<forall>j<n. clock (polled cid tnt dc i j w) - start_time < expires_in \<and>
                  pending (token_responses w j)"
      and "clock (polled cid tnt dc i n w) - start_time < expires_in"
      and "status_code (token_responses w n) = 200"
      and "td_access_token (json (token_responses w n)) = Some tok"
      and "td_refresh_token (json (token_responses w n)) = Some rt"
      and "td_expires_in (json (token_responses w n)) = Some secs"
  shows "\<exists>w'. poll_loop cid tnt dc start_time expires_in i w
                 = Some (AUTHENTICATED (identity (fetched_profile w)), w') \<and>
              requests_log w'
                 = requests_log w @ replicate (Suc n) (poll_request cid tnt dc) @ [GET_me tok] \<and>
              clock w' = clock (polled cid tnt dc i (Suc n) w) + elapsed (me_response w) \<and>
              load_tokens w'
                 = dict_set (Some (json_key (identity (fetched_profile w))))
                     \<lparr>client_id = cid, tenant = tnt, access_token = tok, refresh_token = rt,
                      expires_at = clock w' + secs, user_info = fetched_profile w\<rparr>
                     (load_tokens w) \<and>
              (\<forall>e. identity (fetched_profile w) = Some e \<longrightarrow>
                 map_of (load_tokens w')
                   = (map_of (load_tokens w))
                       (Some e \<mapsto>
                          \<lparr>client_id = cid, tenant = tnt, access_token = tok, refresh_token = rt,
                           expires_at = clock w' + secs, user_info = fetched_profile w\<rparr>)) \<and>
              (status_code (me_response w) = 200 \<longrightarrow>
                 identity (fetched_profile w)
                   = (case mail (json (me_response w)) of
                        Some m \<Rightarrow> if m \<noteq> [] then Some m
                                  else userPrincipalName (json (me_response w))
                      | None \<Rightarrow> userPrincipalName (json (me_response w))))"
proof -
  let ?wp = "polled cid tnt dc i (Suc n) w"
  let ?id = "identity (fetched_profile w)"
  let ?rec = "\<lparr>client_id = cid, tenant = tnt, access_token = tok, refresh_token = rt,
               expires_at = clock ?wp + elapsed (me_response ?wp) + secs,
               user_info = fetched_profile w\<rparr>"
  let ?w' = "save_tokens (dict_set ?id ?rec (load_tokens w)) (http (GET_me tok) (me_response ?wp) ?wp)"
  have prof: "fetched_profile ?wp = fetched_profile w"
    by (simp add: fetched_profile_def)
  have run: "poll_loop cid tnt dc start_time expires_in i w = Some (AUTHENTICATED ?id, ?w')"
    using poll_loop_success [OF assms(1-4)] store_login_success [OF assms(5-7), of cid tnt ?wp]
    by (simp add: prof)
  have clk: "clock ?w' = clock ?wp + elapsed (me_response w)" by simp
  have log: "requests_log ?w'
               = requests_log w @ replicate (Suc n) (poll_request cid tnt dc) @ [GET_me tok]"
    by (simp add: polled_log del: replicate_Suc)
  have load: "load_tokens ?w' = dict_set (Some (json_key ?id)) ?rec (load_tokens w)"
    using load_tokens_save_tokens [OF string_keyed_load_tokens, of ?id ?rec w] by simp
  have "map_of (load_tokens ?w') = (map_of (load_tokens w))(Some (json_key ?id) \<mapsto> ?rec)"
    by (simp only: load map_of_dict_set)
  then have "map_of (load_tokens ?w') = (map_of (load_tokens w))(Some e \<mapsto> ?rec)"
    if "?id = Some e" for e
    using that by simp
  moreover have "identity (fetched_profile w)
                   = (case mail (json (me_response w)) of
                        Some m \<Rightarrow> if m \<noteq> [] then Some m
                                  else userPrincipalName (json (me_response w))
                      | None \<Rightarrow> userPrincipalName (json (me_response w)))"
    if "status_code (me_response w) = 200"
    using that by (simp add: identity_def fetched_profile_def py_or_def split: option.splits)
  ultimately show ?thesis
    using run log load clk by (intro exI [of _ ?w']) (simp del: replicate_Suc)
qed

theorem login_on_granted_poll_witness:
  "(0::real) \<le> 5 \<and>
   clock (polled ''app'' ''consumers'' ''dc'' 5 0 (alice_store 0 (pending_then_granted 3))) - 0 < 900 \<and>
   pending (token_responses (alice_store 0 (pending_then_granted 3)) 0) \<and>
   clock (polled ''app'' ''consumers'' ''dc'' 5 1 (alice_store 0 (pending_then_granted 3))) - 0 < 900 \<and>
   pending (token_responses (alice_store 0 (pending_then_granted 3)) 1) \<and>
   clock (polled ''app'' ''consumers'' ''dc'' 5 2 (alice_store 0 (pending_then_granted 3))) - 0 < 900 \<and>
   pending (token_responses (alice_store 0 (pending_then_granted 3)) 2) \<and>
   clock (polled ''app'' ''consumers'' ''dc'' 5 3 (alice_store 0 (pending_then_granted 3))) - 0 < 900 \<and>
   status_code (token_responses (alice_store 0 (pending_then_granted 3)) 3) = 200 \<and>
   (\<exists>w'. poll_loop ''app'' ''consumers'' ''dc'' 0 900 5 (alice_store 0 (pending_then_granted 3))
            = Some (AUTHENTICATED (Some ''alice@example.com''), w') \<and>
         requests_log w' = replicate 4 (poll_request ''app'' ''consumers'' ''dc'') @ [GET_me ''fresh''] \<and>
         load_tokens w'
            = [(Some ''alice@example.com'',
                \<lparr>client_id = ''app'', tenant = ''consumers'', access_token = ''fresh'',
                 refresh_token = ''r1'', expires_at = 3625, user_info = example_info\<rparr>)])"
proof -
  note [simp] = alice_store_fields
  let ?w = "alice_store 0 (pending_then_granted 3)"
  have h1: "(0::real) \<le> 5" by simp
  have h2: "\<forall>j<3. clock (polled ''app'' ''consumers'' ''dc'' 5 j ?w) - 0 < 900 \<and>
                   pending (token_responses ?w j)"
    by (simp add: polled_clock pending_def pending_then_granted_def answer_def oauth_error_def)
  have h3: "clock (polled ''app'' ''consumers'' ''dc'' 5 3 ?w) - 0 < 900"
    by (simp add: polled_clock)
  have h4: "status_code (token_responses ?w 3) = 200"
    by (simp add: pending_then_granted_def answer_def)
  have h5: "td_access_token (json (token_responses ?w 3)) = Some ''fresh''"
    and h6: "td_refresh_token (json (token_responses ?w 3)) = Some ''r1''"
    and h7: "td_expires_in (json (token_responses ?w 3)) = Some 3600"
    by (simp_all add: pending_then_granted_def answer_def granted_def)
  have prof: "fetched_profile ?w = example_info"
    by (simp add: fetched_profile_def answer_def)
  have ident: "identity example_info = Some ''alice@example.com''"
    by (simp add: identity_def example_info_def py_or_def)
  from login_on_granted_poll [OF h1 h2 h3 h4 h5 h6 h7]
  obtain w' where run: "poll_loop ''app'' ''consumers'' ''dc'' 0 900 5 ?w
                          = Some (AUTHENTICATED (Some ''alice@example.com''), w')"
    and log: "requests_log w' = replicate 4 (poll_request ''app'' ''consumers'' ''dc'') @ [GET_me ''fresh'']"
    and clk: "clock w' = 25"
    and load: "load_tokens w'
                 = [(Some ''alice@example.com'',
                     \<lparr>client_id = ''app'', tenant = ''consumers'', access_token = ''fresh'',
                      refresh_token = ''r1'', expires_at = clock w' + 3600,
                      user_info = example_info\<rparr>)]"
    by (auto simp: prof ident load_tokens_def json_load_def polled_clock answer_def)
  moreover have "clock (polled ''app'' ''consumers'' ''dc'' 5 j ?w) - 0 < 900 \<and>
                 pending (token_responses ?w j)" if "j < 3" for j
    using h2 that by blast
  ultimately show ?thesis using h1 h3 h4 by auto
qed

text \<open>
  C6 (amended). A round made within the time allowed is one sleep and one poll
  request; when the poll is answered with a status other than 200 the token file is
  not touched. If the error code is \<^verbatim>\<open>authorization_pending\<close> the flow stays in the
  polling loop, which tests the time again: if less than \<^verbatim>\<open>expires_in\<close> has elapsed
  after this poll, another poll is made (the outcome is decided by its answer, and
  every run that returns has logged at least these two polls); if not, the flow ends
  \<open>TIMED_OUT\<close> with no further poll. If the error code is \<^verbatim>\<open>authorization_declined\<close> the
  flow ends \<open>DECLINED\<close>; if it is \<^verbatim>\<open>expired_token\<close> the flow ends \<open>EXPIRED\<close>; any other
  answer ends it \<open>REQUEST_FAILED\<close> carrying the error payload.
\<close>

theorem poll_error_codes:
  assumes "clock w - start_time < expires_in"
      and "0 \<le> i"
      and "status_code (token_responses w 0) \<noteq> 200"
  shows "requests_log (snd (poll cid tnt dc i w))
           = requests_log w @ [poll_request cid tnt dc] \<and>
         token_file (snd (poll cid tnt dc i w)) = token_file w \<and>
         file_writes (snd (poll cid tnt dc i w)) = file_writes w \<and>
         (td_error (json (token_responses w 0)) = Some ''authorization_pending'' \<longrightarrow>
            poll_loop cid tnt dc start_time expires_in i w
              = poll_loop cid tnt dc start_time expires_in i (snd (poll cid tnt dc i w)) \<and>
            (\<not> clock (snd (poll cid tnt dc i w)) - start_time < expires_in \<longrightarrow>
               poll_loop cid tnt dc start_time expires_in i w
                 = Some (TIMED_OUT, snd (poll cid tnt dc i w))) \<and>
            (clock (snd (poll cid tnt dc i w)) - start_time < expires_in \<longrightarrow>
               poll_loop cid tnt dc start_time expires_in i w
                 = (if status_code (token_responses w 1) = 200 then
                      Some (store_login cid tnt (json (token_responses w 1))
                              (polled cid tnt dc i 2 w))
                    else if td_error (json (token_responses w 1)) = Some ''authorization_pending'' then
                      poll_loop cid tnt dc start_time expires_in i (polled cid tnt dc i 2 w)
                    else if td_error (json (token_responses w 1)) = Some ''authorization_declined'' then
                      Some (DECLINED, polled cid tnt dc i 2 w)
                    else if td_error (json (token_responses w 1)) = Some ''expired_token'' then
                      Some (EXPIRED, polled cid tnt dc i 2 w)
                    else Some (REQUEST_FAILED (ErrorData (json (token_responses w 1))),
                               polled cid tnt dc i 2 w)) \<and>
               requests_log (polled cid tnt dc i 2 w)
                 = requests_log w @ [poll_request cid tnt dc, poll_request cid tnt dc] \<and>
               (\<forall>st w'. poll_loop cid tnt dc start_time expires_in i w = Some (st, w') \<longrightarrow>
                  (\<exists>rest. requests_log w'
                     = requests_log w @ [poll_request cid tnt dc, poll_request cid tnt dc] @ rest)))) \<and>
         (td_error (json (token_responses w 0)) = Some ''authorization_declined'' \<longrightarrow>
            poll_loop cid tnt dc start_time expires_in i w
              = Some (DECLINED, snd (poll cid tnt dc i w))) \<and>
         (td_error (json (token_responses w 0)) = Some ''expired_token'' \<longrightarrow>
            poll_loop cid tnt dc start_time expires_in i w
              = Some (EXPIRED, snd (poll cid tnt dc i w))) \<and>
         (td_error (json (token_responses w 0)) \<noteq> Some ''authorization_pending'' \<and>
          td_error (json (token_responses w 0)) \<noteq> Some ''authorization_declined'' \<and>
          td_error (json (token_responses w 0)) \<noteq> Some ''expired_token'' \<longrightarrow>
            poll_loop cid tnt dc start_time expires_in i w
              = Some (REQUEST_FAILED (ErrorData (json (token_responses w 0))),
                      snd (poll cid tnt dc i w)))"
proof -
  let ?loop = "poll_loop cid tnt dc start_time expires_in i"
  let ?pr = "poll_request cid tnt dc"
  let ?w1 = "snd (poll cid tnt dc i w)"
  let ?w2 = "polled cid tnt dc i 2 w"
  have w2: "?w2 = snd (poll cid tnt dc i ?w1)"
    by (simp add: polled_def numeral_2_eq_2)
  have log2: "requests_log ?w2 = requests_log w @ [?pr, ?pr]"
    by (simp add: w2)
  have terminal: "?loop w =
      (if td_error (json (token_responses w 0)) = Some ''authorization_pending'' then ?loop ?w1
       else if td_error (json (token_responses w 0)) = Some ''authorization_declined'' then
         Some (DECLINED, ?w1)
       else if td_error (json (token_responses w 0)) = Some ''expired_token'' then
         Some (EXPIRED, ?w1)
       else Some (REQUEST_FAILED (ErrorData (json (token_responses w 0))), ?w1))"
    using assms by (rule poll_loop_error)
  have up: "?loop ?w1 = Some (TIMED_OUT, ?w1)" if "\<not> clock ?w1 - start_time < expires_in"
    using that by (rule poll_loop_timed_out)
  have next_poll: "?loop ?w1 =
      (if status_code (token_responses w 1) = 200 then
         Some (store_login cid tnt (json (token_responses w 1)) ?w2)
       else if td_error (json (token_responses w 1)) = Some ''authorization_pending'' then
         ?loop ?w2
       else if td_error (json (token_responses w 1)) = Some ''authorization_declined'' then
         Some (DECLINED, ?w2)
       else if td_error (json (token_responses w 1)) = Some ''expired_token'' then
         Some (EXPIRED, ?w2)
       else Some (REQUEST_FAILED (ErrorData (json (token_responses w 1))), ?w2))"
    if "clock ?w1 - start_time < expires_in"
  proof (cases "status_code (token_responses w 1) = 200")
    case True
    with that assms(2) show ?thesis
      using poll_loop_granted [of ?w1 start_time expires_in i cid tnt dc] by (simp add: w2)
  next
    case False
    with that assms(2) show ?thesis
      using poll_loop_error [of ?w1 start_time expires_in i cid tnt dc] by (simp add: w2)
  qed
  have after: "\<exists>rest. requests_log w' = requests_log w @ [?pr, ?pr] @ rest"
    if "clock ?w1 - start_time < expires_in" and run: "?loop ?w1 = Some (st, w')" for st w'
  proof (cases "status_code (token_responses w 1) \<noteq> 200 \<and>
                td_error (json (token_responses w 1)) = Some ''authorization_pending''")
    case True
    with next_poll [OF that(1)] run have "?loop ?w2 = Some (st, w')" by simp
    from poll_loop_log [OF this] show ?thesis by (simp add: log2)
  next
    case False
    show ?thesis
    proof (cases "status_code (token_responses w 1) = 200")
      case True
      with next_poll [OF that(1)] run
      have "(st, w') = store_login cid tnt (json (token_responses w 1)) ?w2" by simp
      with store_login_log [of cid tnt "json (token_responses w 1)" ?w2]
      show ?thesis by (metis append.assoc log2 snd_conv)
    next
      case err: False
      with False next_poll [OF that(1)] run have "w' = ?w2"
        by (auto split: if_splits)
      then show ?thesis by (simp add: log2)
    qed
  qed
  show ?thesis
    using terminal up next_poll after log2 by simp
qed

theorem poll_error_codes_witness:
  "clock late_world - 0 < 10 \<and> (0::real) \<le> 5 \<and>
   status_code (token_responses late_world 0) \<noteq> 200 \<and>
   td_error (json (token_responses late_world 0)) = Some ''authorization_pending'' \<and>
   \<not> clock (snd (poll ''app'' ''consumers'' ''dc'' 5 late_world)) - 0 < 10 \<and>
   poll_loop ''app'' ''consumers'' ''dc'' 0 10 5 late_world
     = Some (TIMED_OUT, snd (poll ''app'' ''consumers'' ''dc'' 5 late_world)) \<and>
   clock retry_world - 0 < 900 \<and>
   status_code (token_responses retry_world 0) \<noteq> 200 \<and>
   td_error (json (token_responses retry_world 0)) = Some ''authorization_pending'' \<and>
   clock (snd (poll ''app'' ''consumers'' ''dc'' 5 retry_world)) - 0 < 900 \<and>
   poll_loop ''app'' ''consumers'' ''dc'' 0 900 5 retry_world
     = Some (store_login ''app'' ''consumers'' (granted (Some ''r1''))
               (polled ''app'' ''consumers'' ''dc'' 5 2 retry_world)) \<and>
   requests_log (polled ''app'' ''consumers'' ''dc'' 5 2 retry_world)
     = [poll_request ''app'' ''consumers'' ''dc'', poll_request ''app'' ''consumers'' ''dc''] \<and>
   (\<exists>rest. requests_log (snd (store_login ''app'' ''consumers'' (granted (Some ''r1''))
                                  (polled ''app'' ''consumers'' ''dc'' 5 2 retry_world)))
             = [poll_request ''app'' ''consumers'' ''dc'', poll_request ''app'' ''consumers'' ''dc'']
               @ rest) \<and>
   clock (error_world ''authorization_declined'') - 0 < 900 \<and>
   status_code (token_responses (error_world ''authorization_declined'') 0) \<noteq> 200 \<and>
   td_error (json (token_responses (error_world ''authorization_declined'') 0))
     = Some ''authorization_declined'' \<and>
   poll_loop ''app'' ''consumers'' ''dc'' 0 900 5 (error_world ''authorization_declined'')
     = Some (DECLINED, snd (poll ''app'' ''consumers'' ''dc'' 5 (error_world ''authorization_declined''))) \<and>
   token_file (snd (poll ''app'' ''consumers'' ''dc'' 5 (error_world ''authorization_declined''))) = None \<and>
   clock (error_world ''expired_token'') - 0 < 900 \<and>
   status_code (token_responses (error_world ''expired_token'') 0) \<noteq> 200 \<and>
   td_error (json (token_responses (error_world ''expired_token'') 0)) = Some ''expired_token'' \<and>
   poll_loop ''app'' ''consumers'' ''dc'' 0 900 5 (error_world ''expired_token'')
     = Some (EXPIRED, snd (poll ''app'' ''consumers'' ''dc'' 5 (error_world ''expired_token''))) \<and>
   token_file (snd (poll ''app'' ''consumers'' ''dc'' 5 (error_world ''expired_token''))) = None \<and>
   file_writes (snd (poll ''app'' ''consumers'' ''dc'' 5 (error_world ''expired_token''))) = 0 \<and>
   requests_log (snd (poll ''app'' ''consumers'' ''dc'' 5 (error_world ''expired_token'')))
     = [poll_request ''app'' ''consumers'' ''dc''] \<and>
   clock (error_world ''invalid_grant'') - 0 < 900 \<and>
   status_code (token_responses (error_world ''invalid_grant'') 0) \<noteq> 200 \<and>
   td_error (json (token_responses (error_world ''invalid_grant'') 0)) = Some ''invalid_grant'' \<and>
   poll_loop ''app'' ''consumers'' ''dc'' 0 900 5 (error_world ''invalid_grant'')
     = Some (REQUEST_FAILED (ErrorData (oauth_error ''invalid_grant'')),
             snd (poll ''app'' ''consumers'' ''dc'' 5 (error_world ''invalid_grant''))) \<and>
   token_file (snd (poll ''app'' ''consumers'' ''dc'' 5 (error_world ''invalid_grant''))) = None"
proof -
  have h1: "clock (error_world e) - 0 < 900" for e
    by (simp add: error_world_def)
  have h2: "(0::real) \<le> 5" by simp
  have h3: "status_code (token_responses (error_world e) 0) \<noteq> 200" for e
    by (simp add: error_world_def always_def answer_def)
  have body: "json (token_responses (error_world e) 0) = oauth_error e" for e
    by (simp add: error_world_def always_def answer_def)
  have err: "td_error (oauth_error e) = Some e" for e
    by (simp add: oauth_error_def)
  have tf: "token_file (error_world e) = None" "file_writes (error_world e) = 0"
    "requests_log (error_world e) = []" for e
    by (simp_all add: error_world_def)
  have l1: "clock late_world - 0 < 10"
    and l3: "status_code (token_responses late_world 0) \<noteq> 200"
    and l4: "td_error (json (token_responses late_world 0)) = Some ''authorization_pending''"
    and l5: "\<not> clock (snd (poll ''app'' ''consumers'' ''dc'' 5 late_world)) - 0 < 10"
    by (simp_all add: late_world_facts answer_def oauth_error_def)
  have r1: "clock retry_world - 0 < 900"
    and r3: "status_code (token_responses retry_world 0) \<noteq> 200"
    and r4: "td_error (json (token_responses retry_world 0)) = Some ''authorization_pending''"
    and r5: "clock (snd (poll ''app'' ''consumers'' ''dc'' 5 retry_world)) - 0 < 900"
    and r6: "status_code (token_responses retry_world 1) = 200"
    and r7: "json (token_responses retry_world 1) = granted (Some ''r1'')"
    and r8: "requests_log retry_world = []"
    by (simp_all add: retry_world_def pending_then_granted_def answer_def oauth_error_def)
  note late = poll_error_codes [where w = late_world and cid = "''app''" and tnt = "''consumers''"
      and dc = "''dc''", OF l1 h2 l3]
  note retry = poll_error_codes [where w = retry_world and cid = "''app''" and tnt = "''consumers''"
      and dc = "''dc''", OF r1 h2 r3]
  from late l4 l5
  have a: "poll_loop ''app'' ''consumers'' ''dc'' 0 10 5 late_world
             = Some (TIMED_OUT, snd (poll ''app'' ''consumers'' ''dc'' 5 late_world))"
    by blast
  from retry r4 r5
  have b0: "poll_loop ''app'' ''consumers'' ''dc'' 0 900 5 retry_world
             = (if status_code (token_responses retry_world 1) = 200 then
                  Some (store_login ''app'' ''consumers'' (json (token_responses retry_world 1))
                          (polled ''app'' ''consumers'' ''dc'' 5 2 retry_world))
                else if td_error (json (token_responses retry_world 1)) = Some ''authorization_pending'' then
                  poll_loop ''app'' ''consumers'' ''dc'' 0 900 5 (polled ''app'' ''consumers'' ''dc'' 5 2 retry_world)
                else if td_error (json (token_responses retry_world 1)) = Some ''authorization_declined'' then
                  Some (DECLINED, polled ''app'' ''consumers'' ''dc'' 5 2 retry_world)
                else if td_error (json (token_responses retry_world 1)) = Some ''expired_token'' then
                  Some (EXPIRED, polled ''app'' ''consumers'' ''dc'' 5 2 retry_world)
                else Some (REQUEST_FAILED (ErrorData (json (token_responses retry_world 1))),
                           polled ''app'' ''consumers'' ''dc'' 5 2 retry_world))"
    and c: "requests_log (polled ''app'' ''consumers'' ''dc'' 5 2 retry_world)
             = requests_log retry_world
               @ [poll_request ''app'' ''consumers'' ''dc'', poll_request ''app'' ''consumers'' ''dc'']"
    and d: "\<forall>st w'. poll_loop ''app'' ''consumers'' ''dc'' 0 900 5 retry_world = Some (st, w') \<longrightarrow>
              (\<exists>rest. requests_log w' = requests_log retry_world
                 @ [poll_request ''app'' ''consumers'' ''dc'', poll_request ''app'' ''consumers'' ''dc'']
                 @ rest)"
    by blast+
  from b0 r6 r7
  have b: "poll_loop ''app'' ''consumers'' ''dc'' 0 900 5 retry_world
             = Some (store_login ''app'' ''consumers'' (granted (Some ''r1''))
                       (polled ''app'' ''consumers'' ''dc'' 5 2 retry_world))"
    by simp
  from d b have e: "\<exists>rest. requests_log (snd (store_login ''app'' ''consumers'' (granted (Some ''r1''))
                                  (polled ''app'' ''consumers'' ''dc'' 5 2 retry_world)))
             = [poll_request ''app'' ''consumers'' ''dc'', poll_request ''app'' ''consumers'' ''dc'']
               @ rest"
    by (metis r8 append_Nil prod.collapse)
  show ?thesis
    using poll_error_codes [where w = "error_world ''authorization_declined''" and cid = "''app''" and tnt = "''consumers''"
            and dc = "''dc''", OF h1 h2 h3]
          poll_error_codes [where w = "error_world ''expired_token''" and cid = "''app''" and tnt = "''consumers''"
            and dc = "''dc''", OF h1 h2 h3]
          poll_error_codes [where w = "error_world ''invalid_grant''" and cid = "''app''" and tnt = "''consumers''"
            and dc = "''dc''", OF h1 h2 h3]
          h1 h2 h3 l1 l3 l4 l5 r1 r3 r4 r5 a b c e
    by (simp add: body err tf r8)
qed

text \<open>
  C6 as first stated says that another poll follows an \<^verbatim>\<open>authorization_pending\<close> answer.
  It need not: in a login with \<^verbatim>\<open>expires_in = 10\<close>, the round that starts 6 seconds in
  is answered \<^verbatim>\<open>authorization_pending\<close> after 12 seconds, and the flow ends \<open>TIMED_OUT\<close>
  in the world right after that poll, whose log holds no later request.
\<close>

theorem pending_without_next_poll:
  "clock late_world - 0 < 10 \<and>
   status_code (token_responses late_world 0) \<noteq> 200 \<and>
   td_error (json (token_responses late_world 0)) = Some ''authorization_pending'' \<and>
   poll_loop ''app'' ''consumers'' ''dc'' 0 10 5 late_world
     = Some (TIMED_OUT, snd (poll ''app'' ''consumers'' ''dc'' 5 late_world)) \<and>
   requests_log (snd (poll ''app'' ''consumers'' ''dc'' 5 late_world))
     = requests_log late_world @ [poll_request ''app'' ''consumers'' ''dc'']"
proof -
  have pend: "pending (token_responses late_world 0)"
    by (simp add: late_world_facts pending_def answer_def oauth_error_def)
  have "poll_loop ''app'' ''consumers'' ''dc'' 0 10 5 late_world
          = poll_loop ''app'' ''consumers'' ''dc'' 0 10 5
              (snd (poll ''app'' ''consumers'' ''dc'' 5 late_world))"
    using pend by (intro poll_loop_pending) (simp_all add: late_world_facts)
  also have "\<dots> = Some (TIMED_OUT, snd (poll ''app'' ''consumers'' ''dc'' 5 late_world))"
    by (rule poll_loop_timed_out) (simp add: late_world_facts answer_def)
  finally show ?thesis
    using pend by (simp add: pending_def late_world_facts)
qed




text \<open>
  C9. When the device code is issued, the first poll is answered with status 200 and
  the profile lookup is answered with a status other than 200 (or with a profile that
  has neither mail address nor principal name), the flow still ends \<open>AUTHENTICATED\<close>
  and returns \<^verbatim>\<open>True\<close>, with the identity \<^verbatim>\<open>None\<close>. The mapping it saves is the loaded one
  with the new record added under the key \<^verbatim>\<open>None\<close>; in the token file that key is the
  member name \<^verbatim>\<open>null\<close>, and a later load finds the record under the string \<^verbatim>\<open>null\<close>.
\<close>

theorem login_without_identity:
  assumes "status_code (devicecode_response w) = 200"
      and "dd_device_code (json (devicecode_response w)) = Some dc"
      and "dd_user_code (json (devicecode_response w)) = Some uc"
      and "dd_expires_in (json (devicecode_response w)) = Some expires_in"
      and "0 < expires_in"
      and "0 \<le> (case dd_interval (json (devicecode_response w)) of None \<Rightarrow> 5 | Some i \<Rightarrow> i)"
      and "status_code (token_responses w 0) = 200"
      and "td_access_token (json (token_responses w 0)) = Some tok"
      and "td_refresh_token (json (token_responses w 0)) = Some rt"
      and "td_expires_in (json (token_responses w 0)) = Some secs"
      and "status_code (me_response w) \<noteq> 200 \<or>
           (mail (json (me_response w)) = None \<and> userPrincipalName (json (me_response w)) = None)"
  shows "\<exists>st w'. device_code_login cid tnt w = Some (st, w') \<and>
                 st = AUTHENTICATED None \<and> returns st \<and>
                 token_file w'
                   = Some (json_dump
                       (load_tokens w @
                        [(None, \<lparr>client_id = cid, tenant = tnt, access_token = tok,
                                  refresh_token = rt, expires_at = clock w' + secs,
                                  user_info = fetched_profile w\<rparr>)])) \<and>
                 map_of (load_tokens w') (Some ''null'')
                   = Some \<lparr>client_id = cid, tenant = tnt, access_token = tok,
                           refresh_token = rt, expires_at = clock w' + secs,
                           user_info = fetched_profile w\<rparr>"
proof -
  let ?i = "case dd_interval (json (devicecode_response w)) of None \<Rightarrow> 5 | Some i \<Rightarrow> i"
  let ?w1 = "code_requested cid tnt w"
  let ?wp = "polled cid tnt dc ?i (Suc 0) ?w1"
  let ?rec = "\<lparr>client_id = cid, tenant = tnt, access_token = tok, refresh_token = rt,
               expires_at = clock ?wp + elapsed (me_response w) + secs,
               user_info = fetched_profile w\<rparr>"
  let ?w' = "save_tokens (dict_set None ?rec (load_tokens w)) (http (GET_me tok) (me_response w) ?wp)"
  have ident: "identity (fetched_profile w) = None"
    using assms(11) by (auto simp: identity_def fetched_profile_def py_or_def empty_user_info_def)
  have prof: "fetched_profile ?wp = fetched_profile w"
    by (simp add: fetched_profile_def)
  have "device_code_login cid tnt w = poll_loop cid tnt dc (clock ?w1) expires_in ?i ?w1"
    using assms(1-4) by (rule device_code_login_polling)
  also have "\<dots> = Some (store_login cid tnt (json (token_responses ?w1 0)) ?wp)"
    using assms(5,6,7) by (intro poll_loop_success) simp_all
  also have "\<dots> = Some (AUTHENTICATED None, ?w')"
    using store_login_success [of "json (token_responses w 0)" tok rt secs cid tnt ?wp] assms(8-10)
    by (simp add: prof ident)
  finally have run: "device_code_login cid tnt w = Some (AUTHENTICATED None, ?w')" .
  have "None \<notin> set (map fst (load_tokens w))"
    using string_keyed_load_tokens [of w] by (simp add: string_keyed_def)
  then have app: "dict_set None ?rec (load_tokens w) = load_tokens w @ [(None, ?rec)]"
    by (rule dict_set_fresh)
  have clk: "clock ?w' = clock ?wp + elapsed (me_response w)" by simp
  have tf: "token_file ?w' = Some (json_dump (load_tokens w @ [(None, ?rec)]))"
    by (simp add: save_tokens_def app)
  have "load_tokens ?w' = dict_set (Some ''null'') ?rec (load_tokens w)"
    using load_tokens_save_tokens [OF string_keyed_load_tokens, of None ?rec w] by simp
  then have "map_of (load_tokens ?w') (Some ''null'') = Some ?rec"
    by (simp add: map_of_dict_set)
  with run tf clk show ?thesis
    by (intro exI [of _ "AUTHENTICATED None"] exI [of _ ?w']) simp
qed

theorem login_without_identity_witness:
  "status_code (devicecode_response no_profile_world) = 200 \<and>
   dd_device_code (json (devicecode_response no_profile_world)) = Some ''dc'' \<and>
   dd_expires_in (json (devicecode_response no_profile_world)) = Some 900 \<and>
   status_code (token_responses no_profile_world 0) = 200 \<and>
   status_code (me_response no_profile_world) = 401 \<and>
   (\<exists>st w'. device_code_login ''app'' ''consumers'' no_profile_world = Some (st, w') \<and>
            st = AUTHENTICATED None \<and> returns st \<and>
            token_file w'
              = Some [(''null'',
                       \<lparr>client_id = ''app'', tenant = ''consumers'', access_token = ''fresh'',
                        refresh_token = ''r1'', expires_at = clock w' + 3600,
                        user_info = empty_user_info\<rparr>)] \<and>
            map_of (load_tokens w') (Some ''null'')
              = Some \<lparr>client_id = ''app'', tenant = ''consumers'', access_token = ''fresh'',
                      refresh_token = ''r1'', expires_at = clock w' + 3600,
                      user_info = empty_user_info\<rparr>)"
proof -
  let ?w = no_profile_world
  have dc: "devicecode_response ?w = answer 200 (example_device_data 900 None)"
    and tr: "token_responses ?w 0 = answer 200 (granted (Some ''r1''))"
    and me: "me_response ?w = answer 401 empty_user_info"
    and ld: "load_tokens ?w = []"
    by (simp_all add: no_profile_world_def always_def load_tokens_def)
  have h1: "status_code (devicecode_response ?w) = 200"
    and h2: "dd_device_code (json (devicecode_response ?w)) = Some ''dc''"
    and h3: "dd_user_code (json (devicecode_response ?w)) = Some ''ABCD''"
    and h4: "dd_expires_in (json (devicecode_response ?w)) = Some 900"
    and h6: "0 \<le> (case dd_interval (json (devicecode_response ?w)) of None \<Rightarrow> 5 | Some i \<Rightarrow> i)"
    by (simp_all add: dc answer_def example_device_data_def)
  have h5: "(0::real) < 900" by simp
  have h7: "status_code (token_responses ?w 0) = 200"
    and h8: "td_access_token (json (token_responses ?w 0)) = Some ''fresh''"
    and h9: "td_refresh_token (json (token_responses ?w 0)) = Some ''r1''"
    and h10: "td_expires_in (json (token_responses ?w 0)) = Some 3600"
    by (simp_all add: tr answer_def granted_def)
  have h11: "status_code (me_response ?w) \<noteq> 200 \<or>
             (mail (json (me_response ?w)) = None \<and> userPrincipalName (json (me_response ?w)) = None)"
    by (simp add: me answer_def)
  have prof: "fetched_profile ?w = empty_user_info"
    by (simp add: fetched_profile_def me answer_def)
  have st: "status_code (me_response ?w) = 401" by (simp add: me answer_def)
  from login_without_identity [OF h1 h2 h3 h4 h5 h6 h7 h8 h9 h10 h11, of "''app''" "''consumers''"]
  show ?thesis
    using h1 h2 h4 h7 st by (simp add: prof ld json_dump_def)
qed

end
